theory Spec2Isabelle
  imports Complex_Main "HOL-Library.Multiset" "HOL-Library.Word"
begin

section \<open>Data model\<close>

text \<open>
  Python values that may be \<^verbatim>\<open>None\<close> are options; a raised exception is the
  left summand of a result. A finite double is the real number it denotes; no operation
  on doubles is replaced by the operation on reals: the sum of the retry loop is rounded
  as IEEE 754 rounds it, and the database's addition and multiplication are inputs.
  Strings are \<^typ>\<open>string\<close>, so a character is a code point below 256.
\<close>

datatype error =
    Raised string         \<comment> \<open>an exception of a library, with its message \<^verbatim>\<open>str(e)\<close>\<close>
  | RateLimitExceeded     \<comment> \<open>\<^verbatim>\<open>Exception("Rate limit exceeded. Please wait and try again.")\<close>\<close>
  | NameError string      \<comment> \<open>a name that is not bound\<close>
  | TypeError             \<comment> \<open>\<^verbatim>\<open>float(None)\<close>\<close>
  | DatabaseError         \<comment> \<open>a query the database refuses\<close>
  | OverflowError         \<comment> \<open>\<^verbatim>\<open>time.sleep\<close> or \<^verbatim>\<open>float\<close> on a number too large\<close>

datatype py_value = PyNone | PyInt int

text \<open>The \<^verbatim>\<open>metadata\<close> dictionary built by \<^verbatim>\<open>PDFProcessor.extract_chunks\<close>.\<close>

record chunk_metadata =
  md_length :: int
  md_extraction_method :: string
  md_element_type :: "string option"

text \<open>A chunk dictionary: keys \<^verbatim>\<open>id\<close>, \<^verbatim>\<open>text\<close>, \<^verbatim>\<open>source\<close>,
  \<^verbatim>\<open>chunk_index\<close>, \<^verbatim>\<open>metadata\<close>.\<close>

record chunk =
  chunk_id :: string
  chunk_text :: string
  chunk_source :: string
  chunk_index :: int
  chunk_meta :: chunk_metadata

text \<open>
  A \<^verbatim>\<open>(:Chunk)\<close> node of the graph with the properties that \<^verbatim>\<open>store_chunk\<close>
  sets. A property set to \<^verbatim>\<open>null\<close> is absent: \<^const>\<open>None\<close>. The metadata property
  is the string \<^verbatim>\<open>str(metadata)\<close>.
\<close>

record node =
  n_id :: string
  n_text :: string
  n_source :: string
  n_chunk_index :: int
  n_embedding :: "real list option"
  n_metadata :: string

text \<open>The store is the list of its \<^verbatim>\<open>Chunk\<close> nodes, in the order of their creation.\<close>

type_synonym store = "node list"

section \<open>\<^verbatim>\<open>vector_store.py\<close>\<close>

subsection \<open>\<^verbatim>\<open>VectorStore.store_chunk\<close>\<close>

text \<open>
  \<^verbatim>\<open>MERGE (c:Chunk {id: $id}) SET c.text = $text, ...\<close>: \<^verbatim>\<open>MERGE\<close> binds \<^verbatim>\<open>c\<close> to
  every node with that id, and creates one node with that id when there is none; \<^verbatim>\<open>SET\<close>
  then writes the five properties of every bound node. The builtin \<^verbatim>\<open>str\<close> on the
  metadata dictionary is the parameter \<open>str\<close>.
\<close>

definition store_chunk ::
  "(chunk_metadata \<Rightarrow> string) \<Rightarrow> store \<Rightarrow> string \<Rightarrow> string \<Rightarrow> real list option \<Rightarrow> string \<Rightarrow> int
     \<Rightarrow> chunk_metadata \<Rightarrow> store"
where
  "store_chunk str db cid text embedding source cindex metadata =
     (let c = \<lparr>n_id = cid, n_text = text, n_source = source, n_chunk_index = cindex,
                n_embedding = embedding, n_metadata = str metadata\<rparr>
      in if \<exists>n \<in> set db. n_id n = cid
         then map (\<lambda>n. if n_id n = cid then c else n) db
         else db @ [c])"

subsection \<open>\<^verbatim>\<open>VectorStore.store_chunks_batch\<close>\<close>

text \<open>The lines the method prints, without their decoration.\<close>

datatype batch_line =
    Storing nat           \<comment> \<open>\<^verbatim>\<open>Storing {len(chunks)} chunks in Neo4j...\<close>\<close>
  | Stored string         \<comment> \<open>\<^verbatim>\<open>Stored: {chunk['id']}\<close>\<close>
  | All_stored nat        \<comment> \<open>\<^verbatim>\<open>All {len(chunks)} chunks stored successfully!\<close>\<close>

text \<open>The body of \<^verbatim>\<open>for chunk, embedding in zip(chunks, embeddings)\<close>.\<close>

fun store_pairs ::
  "(chunk_metadata \<Rightarrow> string) \<Rightarrow> (chunk \<times> real list option) list \<Rightarrow> store \<times> batch_line list
     \<Rightarrow> store \<times> batch_line list"
where
  "store_pairs str [] (db, out) = (db, out)"
| "store_pairs str ((c, e) # ps) (db, out) =
     store_pairs str ps
       (store_chunk str db (chunk_id c) (chunk_text c) e (chunk_source c) (chunk_index c)
          (chunk_meta c),
        out @ [Stored (chunk_id c)])"

definition store_chunks_batch ::
  "(chunk_metadata \<Rightarrow> string) \<Rightarrow> store \<Rightarrow> chunk list \<Rightarrow> real list option list
     \<Rightarrow> store \<times> batch_line list"
where
  "store_chunks_batch str db chunks embeddings =
     (let (db', out) = store_pairs str (zip chunks embeddings) (db, [Storing (length chunks)])
      in (db', out @ [All_stored (length chunks)]))"

subsection \<open>\<^verbatim>\<open>VectorStore.delete_by_source\<close>\<close>

text \<open>
  \<^verbatim>\<open>MATCH (c:Chunk {source: $source}) DELETE c RETURN count(c) AS deleted_count\<close>:
  the aggregation gives one row, also when nothing matches. The method prints the count
  and ends without a \<^verbatim>\<open>return\<close> statement, so the caller receives \<^verbatim>\<open>None\<close>.
\<close>

record delete_result =
  store_after :: store
  printed_deleted :: int
  returned :: py_value

definition delete_by_source :: "store \<Rightarrow> string \<Rightarrow> delete_result" where
  "delete_by_source db source =
     (let deleted = int (length (filter (\<lambda>n. n_source n = source) db))
      in \<lparr>store_after = filter (\<lambda>n. n_source n \<noteq> source) db,
          printed_deleted = deleted,
          returned = PyNone\<rparr>)"

subsection \<open>\<^verbatim>\<open>VectorStore.get_chunk_count\<close>\<close>

definition get_chunk_count :: "store \<Rightarrow> int" where
  "get_chunk_count db = int (length db)"

subsection \<open>\<^verbatim>\<open>VectorStore.search_similar\<close>\<close>

text \<open>
  A row of the query's result, and the dictionary the method builds from it. In Cypher an
  index beyond the end of a list gives \<^verbatim>\<open>null\<close>, and so does arithmetic on \<^verbatim>\<open>null\<close>
  and \<^verbatim>\<open>reduce\<close> over \<^verbatim>\<open>null\<close>. The database adds and multiplies in doubles: its two
  operations are the parameters \<open>add\<close> and \<open>mul\<close>.
\<close>

record row =
  r_id :: string
  r_text :: string
  r_source :: string
  r_chunk_index :: int
  r_similarity :: "real option"

record hit =
  h_id :: string
  h_text :: string
  h_source :: string
  h_chunk_index :: int
  h_similarity :: real

definition cy_index :: "real list option \<Rightarrow> nat \<Rightarrow> real option" where
  "cy_index xs i = (case xs of None \<Rightarrow> None | Some l \<Rightarrow> if i < length l then Some (l ! i) else None)"

definition cy_op :: "(real \<Rightarrow> real \<Rightarrow> real) \<Rightarrow> real option \<Rightarrow> real option \<Rightarrow> real option" where
  "cy_op f a b = (case a of None \<Rightarrow> None | Some x \<Rightarrow> (case b of None \<Rightarrow> None | Some y \<Rightarrow> Some (f x y)))"

text \<open>
  \<^verbatim>\<open>reduce(dot = 0.0, i IN range(0, size(c.embedding)-1) | dot + c.embedding[i] * $query_embedding[i])\<close>
\<close>

definition similarity ::
  "(real \<Rightarrow> real \<Rightarrow> real) \<Rightarrow> (real \<Rightarrow> real \<Rightarrow> real) \<Rightarrow> real list option \<Rightarrow> real list option
     \<Rightarrow> real option"
where
  "similarity add mul embedding query_embedding =
     (case embedding of
        None \<Rightarrow> None
      | Some l \<Rightarrow>
          fold (\<lambda>i dot. cy_op add dot (cy_op mul (cy_index embedding i) (cy_index query_embedding i)))
            [0..<length l] (Some 0))"

text \<open>\<^verbatim>\<open>MATCH (c:Chunk) WITH c, ... AS similarity RETURN c.id, c.text, c.source, c.chunk_index, similarity\<close>\<close>

definition match_rows ::
  "(real \<Rightarrow> real \<Rightarrow> real) \<Rightarrow> (real \<Rightarrow> real \<Rightarrow> real) \<Rightarrow> store \<Rightarrow> real list option \<Rightarrow> row list"
where
  "match_rows add mul db query_embedding =
     map (\<lambda>c. \<lparr>r_id = n_id c, r_text = n_text c, r_source = n_source c,
                r_chunk_index = n_chunk_index c,
                r_similarity = similarity add mul (n_embedding c) query_embedding\<rparr>) db"

text \<open>
  \<^verbatim>\<open>ORDER BY similarity DESC\<close>: the rows come back in an order in which the keys
  descend, \<^verbatim>\<open>null\<close> first. The query names no second key, and Cypher leaves the order of
  rows with equal keys to the database. So the order is an answer of the database, and
  \<open>order_by_similarity_desc rows out\<close> says that \<open>out\<close> is an answer the clause allows.
\<close>

definition sim_ge :: "real option \<Rightarrow> real option \<Rightarrow> bool" where
  "sim_ge a b = (case a of None \<Rightarrow> True | Some x \<Rightarrow> (case b of None \<Rightarrow> False | Some y \<Rightarrow> y \<le> x))"

definition order_by_similarity_desc :: "row list \<Rightarrow> row list \<Rightarrow> bool" where
  "order_by_similarity_desc rows out =
     (mset out = mset rows \<and> sorted_wrt (\<lambda>a b. sim_ge (r_similarity a) (r_similarity b)) out)"

text \<open>The loop \<^verbatim>\<open>for record in result: chunks.append({..., "similarity": float(record["similarity"])})\<close>.\<close>

fun to_chunks :: "row list \<Rightarrow> hit list \<Rightarrow> error + hit list" where
  "to_chunks [] chunks = Inr chunks"
| "to_chunks (r # rs) chunks =
     (case r_similarity r of
        None \<Rightarrow> Inl TypeError
      | Some x \<Rightarrow>
          to_chunks rs
            (chunks @ [\<lparr>h_id = r_id r, h_text = r_text r, h_source = r_source r,
                         h_chunk_index = r_chunk_index r, h_similarity = x\<rparr>]))"

section \<open>The services outside the program\<close>

text \<open>
  The embedding service, the generation service, the random number generator and the
  database's choice of order are inputs: the answer to the \<open>n\<close>-th call of each. A
  service answers with \<open>Inl msg\<close> when the client library raises an exception whose
  \<^verbatim>\<open>str(e)\<close> is \<open>msg\<close>. \<^verbatim>\<open>random.random()\<close> returns \<open>k / 2 ^ 53\<close> for a 53-bit integer
  \<open>k\<close>, and \<open>random_random\<close> gives the \<open>k\<close> of the \<open>n\<close>-th draw. \<open>float_add\<close> and
  \<open>float_mul\<close> are the database's addition and multiplication of doubles. The world
  counts the calls made and records the sleeps.
\<close>

record env =
  embed_content :: "nat \<Rightarrow> string \<Rightarrow> string \<Rightarrow> string + real list"
  generate_content :: "nat \<Rightarrow> string \<Rightarrow> string + string"
  random_random :: "nat \<Rightarrow> 53 word"
  order_by :: "nat \<Rightarrow> row list \<Rightarrow> row list"
  float_add :: "real \<Rightarrow> real \<Rightarrow> real"
  float_mul :: "real \<Rightarrow> real \<Rightarrow> real"

record world =
  embed_calls :: nat
  gen_calls :: nat
  draws :: nat
  db_queries :: nat
  slept :: "real list"

definition world0 :: world where
  "world0 = \<lparr>embed_calls = 0, gen_calls = 0, draws = 0, db_queries = 0, slept = []\<rparr>"

definition search_similar ::
  "env \<Rightarrow> store \<Rightarrow> real list option \<Rightarrow> int \<Rightarrow> world \<Rightarrow> (error + hit list) \<times> world"
where
  "search_similar ev db query_embedding top_k w =
     (let w' = w\<lparr>db_queries := db_queries w + 1\<rparr>
      in if top_k < 0 then (Inl DatabaseError, w')
         else (to_chunks
                 (take (nat top_k)
                    (order_by ev (db_queries w)
                       (match_rows (float_add ev) (float_mul ev) db query_embedding))) [],
               w'))"

section \<open>Strings\<close>

text \<open>Decimal digits of an integer, as \<^verbatim>\<open>str\<close> and an f-string write it.\<close>

definition digit_char :: "nat \<Rightarrow> char" where
  "digit_char d = char_of (48 + d)"

fun str_nat :: "nat \<Rightarrow> string" where
  "str_nat n = (if n < 10 then [digit_char n] else str_nat (n div 10) @ [digit_char (n mod 10)])"

declare str_nat.simps [simp del]

definition str_int :: "int \<Rightarrow> string" where
  "str_int i = (if i < 0 then CHR ''-'' # str_nat (nat (- i)) else str_nat (nat i))"

definition nl :: string where
  "nl = [CHR 0x0A]"

text \<open>\<^verbatim>\<open>sep.join(parts)\<close>\<close>

fun str_join :: "string \<Rightarrow> string list \<Rightarrow> string" where
  "str_join sep [] = []"
| "str_join sep [x] = x"
| "str_join sep (x # y # ys) = x @ sep @ str_join sep (y # ys)"

text \<open>\<^verbatim>\<open>needle in haystack\<close>\<close>

fun contains :: "string \<Rightarrow> string \<Rightarrow> bool" where
  "contains needle [] = (needle = [])"
| "contains needle (c # cs) = (take (length needle) (c # cs) = needle \<or> contains needle cs)"

text \<open>\<^verbatim>\<open>str.lower\<close> on code points below 256: the letters A to Z and the capital letters
  of Latin-1 move up by 32.\<close>

definition lower_char :: "char \<Rightarrow> char" where
  "lower_char c =
     (let n = (of_char c :: nat)
      in if (65 \<le> n \<and> n \<le> 90) \<or> (192 \<le> n \<and> n \<le> 222 \<and> n \<noteq> 215) then char_of (n + 32) else c)"

definition lower :: "string \<Rightarrow> string" where
  "lower s = map lower_char s"

text \<open>\<^verbatim>\<open>str.isspace\<close> on code points below 256, and \<^verbatim>\<open>str.strip()\<close>.\<close>

definition is_space :: "char \<Rightarrow> bool" where
  "is_space c = ((of_char c :: nat) \<in> {9, 10, 11, 12, 13, 28, 29, 30, 31, 32, 133, 160})"

definition strip :: "string \<Rightarrow> string" where
  "strip s = rev (dropWhile is_space (rev (dropWhile is_space s)))"

text \<open>\<^verbatim>\<open>full_text.split('\n\n')\<close>: cut at each pair of newlines, from the left, the
  pairs not overlapping; \<open>cur\<close> holds the current piece, reversed.\<close>

fun split_blank :: "string \<Rightarrow> string \<Rightarrow> string list" where
  "split_blank cur [] = [rev cur]"
| "split_blank cur [a] = [rev (a # cur)]"
| "split_blank cur (a # b # rest) =
     (if a = CHR 0x0A \<and> b = CHR 0x0A then rev cur # split_blank [] rest
      else split_blank (a # cur) (b # rest))"

section \<open>\<^verbatim>\<open>embeddings.py\<close> and the retry loop\<close>

text \<open>\<^verbatim>\<open>"429" in str(e) or "quota" in str(e).lower()\<close>\<close>

definition is_rate_limit :: "string \<Rightarrow> bool" where
  "is_rate_limit msg = (contains ''429'' msg \<or> contains ''quota'' (lower msg))"

text \<open>
  \<^verbatim>\<open>(2 ** attempt) + random.uniform(0, 1)\<close>. With the arguments 0 and 1,
  \<^verbatim>\<open>random.uniform\<close> returns \<^verbatim>\<open>0 + (1 - 0) * random.random()\<close>, which is the draw
  \<open>k / 2 ^ 53\<close> itself, a double in \<open>[0, 1)\<close>. The integer \<open>2 ^ attempt\<close> becomes a double (for
  \<open>attempt < 1024\<close>; beyond, the conversion raises \<^verbatim>\<open>OverflowError\<close>) and the sum is
  rounded to the nearest double, ties to the even significand. The exact sum
  \<open>(2 ^ (attempt + 53) + k) / 2 ^ 53\<close> lies between \<open>2 ^ attempt\<close> and \<open>2 ^ (attempt + 1)\<close>,
  where the doubles are the multiples of \<open>2 ^ attempt / 2 ^ 52\<close>: the sum is that unit times
  the quotient of \<open>2 ^ (attempt + 53) + k\<close> by \<open>2 ^ (attempt + 1)\<close>, rounded.
\<close>

definition round_half_even :: "nat \<Rightarrow> nat \<Rightarrow> nat" where
  "round_half_even n d =
     (let q = n div d; r = n mod d
      in if 2 * r < d then q
         else if d < 2 * r then q + 1
         else if even q then q else q + 1)"

definition pow2_plus_uniform :: "nat \<Rightarrow> 53 word \<Rightarrow> real" where
  "pow2_plus_uniform attempt k =
     real (round_half_even (2 ^ (attempt + 53) + unat k) (2 ^ (attempt + 1))) * 2 ^ attempt / 2 ^ 52"

text \<open>
  \<^verbatim>\<open>time.sleep(secs)\<close> turns the seconds into a signed 64-bit count of nanoseconds and
  raises \<^verbatim>\<open>OverflowError\<close> when the count does not fit. CPython tests the double product
  with \<open>10 ^ 9\<close>, rounded up; the definition tests the exact product. On the sums above,
  which are at least \<open>2 ^ attempt\<close> and, for \<open>attempt \<le> 52\<close>, at most \<open>2 ^ attempt + 1\<close>,
  the two tests agree: up to attempt 33 the product is below \<open>8.6 * 10 ^ 18\<close> and both
  pass, from attempt 34 it is above \<open>1.7 * 10 ^ 19\<close> and both fail; \<open>2 ^ 63\<close> is about
  \<open>9.2 * 10 ^ 18\<close>.
\<close>

definition sleep_overflows :: "real \<Rightarrow> bool" where
  "sleep_overflows secs = (2 ^ 63 \<le> secs * 10 ^ 9)"

text \<open>
  \<^verbatim>\<open>EmbeddingGenerator.generate\<close> and \<^verbatim>\<open>ResponseGenerator.generate\<close> hold the same loop
  \<^verbatim>\<open>for attempt in range(self.max_retries)\<close> around their call of the service. \<open>call\<close>
  is that call; \<open>attempt\<close> is the loop variable; \<open>rnd\<close> gives the draws. An exception
  raised in the handler (by the sum or by \<^verbatim>\<open>time.sleep\<close>) leaves the method. A loop that
  ends without returning leaves the method's result \<^verbatim>\<open>None\<close>.
\<close>

function retry_loop ::
  "(world \<Rightarrow> (string + 'a) \<times> world) \<Rightarrow> (nat \<Rightarrow> 53 word) \<Rightarrow> int \<Rightarrow> nat \<Rightarrow> world
     \<Rightarrow> (error + 'a option) \<times> world"
where
  "retry_loop call rnd max_retries attempt w =
     (if int attempt < max_retries then
        (case call w of
           (Inr result, w1) \<Rightarrow> (Inr (Some result), w1)
         | (Inl e, w1) \<Rightarrow>
             if is_rate_limit e then
               if int attempt < max_retries - 1 then
                 let k = rnd (draws w1);
                     w2 = w1\<lparr>draws := draws w1 + 1\<rparr>
                 in if 1024 \<le> attempt then (Inl OverflowError, w2)
                    else
                      let wait_time = pow2_plus_uniform attempt k
                      in if sleep_overflows wait_time then (Inl OverflowError, w2)
                         else retry_loop call rnd max_retries (attempt + 1)
                                (w2\<lparr>slept := slept w2 @ [wait_time]\<rparr>)
               else (Inl RateLimitExceeded, w1)
             else (Inl (Raised e), w1))
      else (Inr None, w))"
  by pat_completeness auto
termination
  by (relation "measure (\<lambda>(call, rnd, max_retries, attempt, w). nat (max_retries - int attempt))")
     auto

declare retry_loop.simps [simp del]

definition call_embed :: "env \<Rightarrow> string \<Rightarrow> string \<Rightarrow> world \<Rightarrow> (string + real list) \<times> world" where
  "call_embed ev content task_type w =
     (embed_content ev (embed_calls w) content task_type, w\<lparr>embed_calls := embed_calls w + 1\<rparr>)"

definition generate_embedding ::
  "env \<Rightarrow> int \<Rightarrow> string \<Rightarrow> string \<Rightarrow> world \<Rightarrow> (error + real list option) \<times> world"
where
  "generate_embedding ev max_retries text task_type w =
     retry_loop (call_embed ev text task_type) (random_random ev) max_retries 0 w"

definition generate_query_embedding ::
  "env \<Rightarrow> int \<Rightarrow> string \<Rightarrow> world \<Rightarrow> (error + real list option) \<times> world"
where
  "generate_query_embedding ev max_retries query w =
     generate_embedding ev max_retries query ''retrieval_query'' w"

definition generate_document_embedding ::
  "env \<Rightarrow> int \<Rightarrow> string \<Rightarrow> world \<Rightarrow> (error + real list option) \<times> world"
where
  "generate_document_embedding ev max_retries document w =
     generate_embedding ev max_retries document ''retrieval_document'' w"

section \<open>\<^verbatim>\<open>response_generator.py\<close>\<close>

text \<open>
  \<^verbatim>\<open>ResponseGenerator._build_context\<close>: the loop
  \<^verbatim>\<open>for i, chunk in enumerate(chunks, 1)\<close> appends one f-string to \<^verbatim>\<open>context_parts\<close>,
  and the parts are joined with a newline.
\<close>

definition context_part :: "int \<Rightarrow> hit \<Rightarrow> string" where
  "context_part i chunk =
     ''[Context '' @ str_int i @ '' - Source: '' @ h_source chunk @ '', Chunk ''
       @ str_int (h_chunk_index chunk) @ '']'' @ nl @ h_text chunk @ nl"

fun context_parts :: "int \<Rightarrow> hit list \<Rightarrow> string list \<Rightarrow> string list" where
  "context_parts i [] parts = parts"
| "context_parts i (chunk # chunks) parts = context_parts (i + 1) chunks (parts @ [context_part i chunk])"

definition build_context :: "hit list \<Rightarrow> string" where
  "build_context chunks =
     (if chunks = [] then ''No relevant context found.''
      else str_join nl (context_parts 1 chunks []))"

text \<open>\<^verbatim>\<open>ResponseGenerator._create_prompt\<close>\<close>

definition create_prompt :: "string \<Rightarrow> string \<Rightarrow> string" where
  "create_prompt query context =
     ''You are a helpful AI assistant answering questions based on provided context.'' @ nl @ nl
     @ ''Context Information:'' @ nl
     @ context @ nl @ nl
     @ ''User Question: '' @ query @ nl @ nl
     @ ''Instructions:'' @ nl
     @ ''- Answer the question using ONLY the information provided in the context above'' @ nl
     @ ''- Be accurate and specific'' @ nl
     @ ''- If the context doesn'' @ [CHR 0x27]
     @ ''t contain enough information to fully answer the question, acknowledge this'' @ nl
     @ ''- Cite which context sources you used in your answer'' @ nl
     @ ''- Keep your answer clear and concise'' @ nl @ nl
     @ ''Answer:''"

text \<open>\<^verbatim>\<open>ResponseGenerator.generate\<close>; reading \<^verbatim>\<open>response.text\<close> is inside the \<^verbatim>\<open>try\<close>,
  so an answer of the service is the text or an exception.\<close>

definition call_generate :: "env \<Rightarrow> string \<Rightarrow> world \<Rightarrow> (string + string) \<times> world" where
  "call_generate ev prompt w =
     (generate_content ev (gen_calls w) prompt, w\<lparr>gen_calls := gen_calls w + 1\<rparr>)"

definition generate_response ::
  "env \<Rightarrow> int \<Rightarrow> string \<Rightarrow> hit list \<Rightarrow> world \<Rightarrow> (error + string option) \<times> world"
where
  "generate_response ev max_retries query context_chunks w =
     (let context = build_context context_chunks;
          prompt = create_prompt query context
      in retry_loop (call_generate ev prompt) (random_random ev) max_retries 0 w)"

section \<open>\<^verbatim>\<open>pdf_processor.py\<close>\<close>

text \<open>
  What Docling gives for a PDF: \<^verbatim>\<open>convert\<close> raises or gives a document, whose
  \<^verbatim>\<open>export_to_markdown()\<close> raises or gives the text, and whose \<^verbatim>\<open>iterate_items()\<close> gives
  elements, each with its class name and its \<^verbatim>\<open>text\<close> attribute when it has one.
  \<^verbatim>\<open>Path(pdf_path).stem\<close> and \<^verbatim>\<open>Path(pdf_path).name\<close> are the parameters \<open>stem\<close> and
  \<open>name\<close>.
\<close>

record element =
  el_text :: "string option"
  el_class :: string

record document =
  export_to_markdown :: "string + string"
  iterate_items :: "element list"

text \<open>Method 1: the loop over the paragraphs.\<close>

fun markdown_chunks ::
  "int \<Rightarrow> string \<Rightarrow> string \<Rightarrow> string list \<Rightarrow> chunk list \<times> int \<Rightarrow> chunk list \<times> int"
where
  "markdown_chunks min_chunk_length stem name [] (chunks, cid) = (chunks, cid)"
| "markdown_chunks min_chunk_length stem name (para # paragraphs) (chunks, cid) =
     (let text = strip para
      in if text \<noteq> [] \<and> int (length text) > min_chunk_length
         then markdown_chunks min_chunk_length stem name paragraphs
                (chunks @ [\<lparr>chunk_id = stem @ ''_chunk_'' @ str_int cid,
                             chunk_text = text,
                             chunk_source = name,
                             chunk_index = cid,
                             chunk_meta = \<lparr>md_length = int (length text),
                                            md_extraction_method = ''markdown'',
                                            md_element_type = None\<rparr>\<rparr>],
                 cid + 1)
         else markdown_chunks min_chunk_length stem name paragraphs (chunks, cid))"

text \<open>Method 2: the loop over the elements.\<close>

fun item_chunks ::
  "int \<Rightarrow> string \<Rightarrow> string \<Rightarrow> element list \<Rightarrow> chunk list \<times> int \<Rightarrow> chunk list \<times> int"
where
  "item_chunks min_chunk_length stem name [] (chunks, cid) = (chunks, cid)"
| "item_chunks min_chunk_length stem name (el # els) (chunks, cid) =
     (let text = (case el_text el of Some t \<Rightarrow> strip t | None \<Rightarrow> [])
      in if text \<noteq> [] \<and> int (length text) > min_chunk_length
         then item_chunks min_chunk_length stem name els
                (chunks @ [\<lparr>chunk_id = stem @ ''_chunk_'' @ str_int cid,
                             chunk_text = text,
                             chunk_source = name,
                             chunk_index = cid,
                             chunk_meta = \<lparr>md_length = int (length text),
                                            md_extraction_method = ''iterate_items'',
                                            md_element_type = Some (el_class el)\<rparr>\<rparr>],
                 cid + 1)
         else item_chunks min_chunk_length stem name els (chunks, cid))"

definition extract_chunks ::
  "int \<Rightarrow> string \<Rightarrow> string \<Rightarrow> string + document \<Rightarrow> error + chunk list"
where
  "extract_chunks min_chunk_length stem name converted =
     (case converted of
        Inl e \<Rightarrow> Inl (Raised e)
      | Inr doc \<Rightarrow>
          (case export_to_markdown doc of
             Inr full_text \<Rightarrow>
               Inr (fst (markdown_chunks min_chunk_length stem name (split_blank [] full_text) ([], 0)))
           | Inl e \<Rightarrow>
               Inr (fst (item_chunks min_chunk_length stem name (iterate_items doc) ([], 0)))))"

section \<open>\<^verbatim>\<open>config.py\<close> and \<^verbatim>\<open>rag_orchestrator.py\<close>\<close>

record config =
  chunk_min_length :: int
  top_k_results :: int
  max_retries :: int

definition default_config :: config where
  "default_config = \<lparr>chunk_min_length = 20, top_k_results = 5, max_retries = 3\<rparr>"

text \<open>The dictionary \<^verbatim>\<open>process_and_store_pdf\<close> returns when no chunk was extracted.\<close>

record outcome =
  success :: bool
  message :: string
  chunks_processed :: int

text \<open>Step 2 of \<^verbatim>\<open>process_and_store_pdf\<close>: one embedding per chunk, in order.\<close>

fun embed_chunks ::
  "env \<Rightarrow> int \<Rightarrow> chunk list \<Rightarrow> real list option list \<Rightarrow> world
     \<Rightarrow> (error + real list option list) \<times> world"
where
  "embed_chunks ev mr [] embeddings w = (Inr embeddings, w)"
| "embed_chunks ev mr (c # cs) embeddings w =
     (case generate_document_embedding ev mr (chunk_text c) w of
        (Inl e, w1) \<Rightarrow> (Inl e, w1)
      | (Inr embedding, w1) \<Rightarrow> embed_chunks ev mr cs (embeddings @ [embedding]) w1)"

text \<open>
  \<^verbatim>\<open>RAGOrchestrator.process_and_store_pdf\<close>. The assignment
  \<^verbatim>\<open>stats = self.pdf_processor.get_chunk_statistics(chunks)\<close> is commented out in the
  source, and no other binding of \<^verbatim>\<open>stats\<close> exists, so building the last dictionary,
  \<^verbatim>\<open>{"success": True, ..., "statistics": stats}\<close>, raises \<^verbatim>\<open>NameError\<close> after the
  chunks are stored. The result is the outcome or the exception, the store, and the world.
\<close>

definition process_and_store_pdf ::
  "(chunk_metadata \<Rightarrow> string) \<Rightarrow> env \<Rightarrow> config \<Rightarrow> store \<Rightarrow> string \<Rightarrow> string \<Rightarrow> string + document
     \<Rightarrow> world \<Rightarrow> (error + outcome) \<times> store \<times> world"
where
  "process_and_store_pdf str ev cfg db stem name converted w =
     (case extract_chunks (chunk_min_length cfg) stem name converted of
        Inl e \<Rightarrow> (Inl e, db, w)
      | Inr chunks \<Rightarrow>
          if chunks = [] then
            (Inr \<lparr>success = False, message = ''No chunks extracted from PDF'',
                  chunks_processed = 0\<rparr>, db, w)
          else
            (case embed_chunks ev (max_retries cfg) chunks [] w of
               (Inl e, w1) \<Rightarrow> (Inl e, db, w1)
             | (Inr embeddings, w1) \<Rightarrow>
                 (Inl (NameError ''stats''), fst (store_chunks_batch str db chunks embeddings), w1)))"

text \<open>\<^verbatim>\<open>RAGOrchestrator.query\<close>\<close>

record answer =
  a_question :: string
  a_answer :: "string option"
  a_sources :: "hit list"

definition fallback_answer :: string where
  "fallback_answer =
     ''I couldn'' @ [CHR 0x27]
     @ ''t find any relevant information in the knowledge base to answer your question.''"

definition query ::
  "env \<Rightarrow> config \<Rightarrow> store \<Rightarrow> string \<Rightarrow> int option \<Rightarrow> world \<Rightarrow> (error + answer) \<times> world"
where
  "query ev cfg db question top_k w =
     (let k = (case top_k of None \<Rightarrow> top_k_results cfg | Some k \<Rightarrow> k)
      in case generate_query_embedding ev (max_retries cfg) question w of
           (Inl e, w1) \<Rightarrow> (Inl e, w1)
         | (Inr query_embedding, w1) \<Rightarrow>
             (case search_similar ev db query_embedding k w1 of
                (Inl e, w2) \<Rightarrow> (Inl e, w2)
              | (Inr relevant_chunks, w2) \<Rightarrow>
                  if relevant_chunks = [] then
                    (Inr \<lparr>a_question = question, a_answer = Some fallback_answer, a_sources = []\<rparr>, w2)
                  else
                    (case generate_response ev (max_retries cfg) question relevant_chunks w2 of
                       (Inl e, w3) \<Rightarrow> (Inl e, w3)
                     | (Inr answer, w3) \<Rightarrow>
                         (Inr \<lparr>a_question = question, a_answer = answer,
                               a_sources = relevant_chunks\<rparr>, w3))))"

section \<open>Terms of the statements\<close>

text \<open>The node that a write of \<open>(text, embedding, source, chunk_index, metadata)\<close> under an id
  leaves, and a replay: the writes of a list, one after the other, under one id.\<close>

definition node_of ::
  "(chunk_metadata \<Rightarrow> string) \<Rightarrow> string
     \<Rightarrow> string \<times> real list option \<times> string \<times> int \<times> chunk_metadata \<Rightarrow> node"
where
  "node_of str cid w =
     (case w of (t, e, s, i, m) \<Rightarrow>
        \<lparr>n_id = cid, n_text = t, n_source = s, n_chunk_index = i, n_embedding = e,
         n_metadata = str m\<rparr>)"

fun store_writes ::
  "(chunk_metadata \<Rightarrow> string) \<Rightarrow> store \<Rightarrow> string
     \<Rightarrow> (string \<times> real list option \<times> string \<times> int \<times> chunk_metadata) list \<Rightarrow> store"
where
  "store_writes str db cid [] = db"
| "store_writes str db cid ((t, e, s, i, m) # ws) =
     store_writes str (store_chunk str db cid t e s i m) cid ws"

definition node_of_chunk :: "(chunk_metadata \<Rightarrow> string) \<Rightarrow> chunk \<Rightarrow> real list option \<Rightarrow> node" where
  "node_of_chunk str c e =
     \<lparr>n_id = chunk_id c, n_text = chunk_text c, n_source = chunk_source c,
      n_chunk_index = chunk_index c, n_embedding = e, n_metadata = str (chunk_meta c)\<rparr>"

text \<open>Sample data for the concrete instances.\<close>

definition md0 :: chunk_metadata where
  "md0 = \<lparr>md_length = 5, md_extraction_method = ''markdown'', md_element_type = None\<rparr>"

definition c0 :: chunk where
  "c0 = \<lparr>chunk_id = ''d_chunk_0'', chunk_text = ''alpha'', chunk_source = ''d.pdf'',
         chunk_index = 0, chunk_meta = md0\<rparr>"

definition c1 :: chunk where
  "c1 = \<lparr>chunk_id = ''d_chunk_1'', chunk_text = ''beta'', chunk_source = ''d.pdf'',
         chunk_index = 1, chunk_meta = md0\<rparr>"




text \<open>Two results of a search, for the context assembly.\<close>

definition hit0 :: hit where
  "hit0 = \<lparr>h_id = ''d_chunk_0'', h_text = ''Paris is the capital.'', h_source = ''d.pdf'',
           h_chunk_index = 0, h_similarity = 1\<rparr>"

definition hit1 :: hit where
  "hit1 = \<lparr>h_id = ''d_chunk_12'', h_text = ''Rome too.'', h_source = ''e.pdf'',
           h_chunk_index = 12, h_similarity = 1 / 2\<rparr>"

text \<open>The test of both extraction loops on a stripped text.\<close>

definition kept :: "int \<Rightarrow> string \<Rightarrow> bool" where
  "kept min_chunk_length t = (t \<noteq> [] \<and> min_chunk_length < int (length t))"

definition full_text0 :: string where
  "full_text0 = ''  A paragraph of thirty-two chars.'' @ nl @ nl @ ''12345678901234567890'' @ nl @ nl @ ''short''"

definition doc0 :: document where
  "doc0 = \<lparr>export_to_markdown = Inr full_text0, iterate_items = []\<rparr>"

text \<open>Services that answer every call, and the chunk of the sample document.\<close>

definition ev1 :: env where
  "ev1 = \<lparr>embed_content = (\<lambda>n content task_type. Inr [1, 0]),
          generate_content = (\<lambda>n prompt. Inr ''An answer.''),
          random_random = (\<lambda>n. 4503599627370496),
          order_by = (\<lambda>n rows. rows),
          float_add = (+),
          float_mul = (*)\<rparr>"

definition chunk0 :: chunk where
  "chunk0 = \<lparr>chunk_id = ''d_chunk_0'', chunk_text = ''A paragraph of thirty-two chars.'',
              chunk_source = ''d.pdf'', chunk_index = 0,
              chunk_meta = \<lparr>md_length = 32, md_extraction_method = ''markdown'',
                             md_element_type = None\<rparr>\<rparr>"

text \<open>The row that a result dictionary was built from, and a sample store of two chunks
  with vectors of dimension 2.\<close>

definition row_of_hit :: "hit \<Rightarrow> row" where
  "row_of_hit h = \<lparr>r_id = h_id h, r_text = h_text h, r_source = h_source h,
                    r_chunk_index = h_chunk_index h, r_similarity = Some (h_similarity h)\<rparr>"

definition db_pair :: store where
  "db_pair = fst (store_chunks_batch (\<lambda>m. ''m'') [] [c0, c1] [Some [1, 0], Some [0, 1]])"

section \<open>The store: upsert, batch, deletion\<close>

lemma n_id_node_of [simp]: "n_id (node_of str cid w) = cid"
  by (cases w) (simp add: node_of_def)

lemma store_chunk_node_of:
  "store_chunk str db cid t e s i m =
     (if cid \<in> n_id ` set db
      then map (\<lambda>n. if n_id n = cid then node_of str cid (t, e, s, i, m) else n) db
      else db @ [node_of str cid (t, e, s, i, m)])"
  by (auto simp: store_chunk_def node_of_def Let_def)

lemma overwrite_ids:
  "n_id c = cid \<Longrightarrow> map n_id (map (\<lambda>n. if n_id n = cid then c else n) db) = map n_id db"
  by (induction db) auto

lemma overwrite_absent:
  "cid \<notin> n_id ` set db \<Longrightarrow> map (\<lambda>n. if n_id n = cid then c else n) db = db"
  by (induction db) auto

lemma overwrite_filter:
  "n_id c = cid \<Longrightarrow> distinct (map n_id db) \<Longrightarrow> cid \<in> n_id ` set db \<Longrightarrow>
   filter (\<lambda>n. n_id n = cid) (map (\<lambda>n. if n_id n = cid then c else n) db) = [c]"
proof (induction db)
  case Nil
  then show ?case by simp
next
  case (Cons a db)
  show ?case
  proof (cases "n_id a = cid")
    case True
    with Cons.prems have "cid \<notin> n_id ` set db" by auto
    then have "filter (\<lambda>n. n_id n = cid) (map (\<lambda>n. if n_id n = cid then c else n) db) = []"
      by (auto simp: overwrite_absent filter_empty_conv)
    with True Cons.prems show ?thesis by simp
  next
    case False
    with Cons show ?thesis by auto
  qed
qed

lemma overwrite_others:
  "n_id c = cid \<Longrightarrow>
   filter (\<lambda>n. n_id n \<noteq> cid) (map (\<lambda>n. if n_id n = cid then c else n) db) =
   filter (\<lambda>n. n_id n \<noteq> cid) db"
  by (induction db) auto

lemma store_chunk_map_ids:
  "map n_id (store_chunk str db cid t e s i m) =
     (if cid \<in> n_id ` set db then map n_id db else map n_id db @ [cid])"
  by (simp add: store_chunk_node_of overwrite_ids)

lemma store_chunk_distinct:
  "distinct (map n_id db) \<Longrightarrow> distinct (map n_id (store_chunk str db cid t e s i m))"
  by (simp add: store_chunk_map_ids)

lemma store_chunk_filter:
  "distinct (map n_id db) \<Longrightarrow>
   filter (\<lambda>n. n_id n = cid) (store_chunk str db cid t e s i m) = [node_of str cid (t, e, s, i, m)]"
  by (auto simp: store_chunk_node_of overwrite_filter filter_empty_conv)

lemma store_chunk_others:
  "filter (\<lambda>n. n_id n \<noteq> cid) (store_chunk str db cid t e s i m) = filter (\<lambda>n. n_id n \<noteq> cid) db"
  by (simp add: store_chunk_node_of overwrite_others)

lemma store_writes_distinct:
  "distinct (map n_id db) \<Longrightarrow> distinct (map n_id (store_writes str db cid ws))"
  by (induction str db cid ws rule: store_writes.induct) (simp_all add: store_chunk_distinct)

lemma store_writes_snoc:
  "store_writes str db cid (ws @ [(t, e, s, i, m)]) =
     store_chunk str (store_writes str db cid ws) cid t e s i m"
  by (induction str db cid ws rule: store_writes.induct) simp_all

lemma store_writes_others:
  "filter (\<lambda>n. n_id n \<noteq> cid) (store_writes str db cid ws) = filter (\<lambda>n. n_id n \<noteq> cid) db"
  by (induction str db cid ws rule: store_writes.induct) (simp_all add: store_chunk_others)

lemma store_writes_length:
  "cid \<in> n_id ` set db \<Longrightarrow> length (store_writes str db cid ws) = length db"
proof (induction str db cid ws rule: store_writes.induct)
  case (1 str db cid)
  then show ?case by simp
next
  case (2 str db cid t e s i m ws)
  have "cid \<in> set (map n_id (store_chunk str db cid t e s i m))"
    using "2.prems" by (simp only: store_chunk_map_ids) simp
  then have "cid \<in> n_id ` set (store_chunk str db cid t e s i m)"
    by simp
  with 2 show ?case by (simp add: store_chunk_node_of)
qed

text \<open>
  C7. In a store whose ids are distinct (the uniqueness constraint of the schema), after
  one or more writes under one id, whether the id was there before or not, exactly one
  node has that id and its properties are those of the last write; the other nodes are
  as before, and when the id was there before no node is added.
\<close>

theorem store_chunk_upsert:
  assumes "distinct (map n_id db)" and "ws \<noteq> []"
  shows "filter (\<lambda>n. n_id n = cid) (store_writes str db cid ws) = [node_of str cid (last ws)]
       \<and> filter (\<lambda>n. n_id n \<noteq> cid) (store_writes str db cid ws) = filter (\<lambda>n. n_id n \<noteq> cid) db
       \<and> (cid \<in> n_id ` set db \<longrightarrow> length (store_writes str db cid ws) = length db)
       \<and> distinct (map n_id (store_writes str db cid ws))"
proof -
  from assms(2) obtain ws' w where ws: "ws = ws' @ [w]"
    by (metis append_butlast_last_id)
  obtain t e s i m where w: "w = (t, e, s, i, m)" by (cases w)
  have "filter (\<lambda>n. n_id n = cid) (store_writes str db cid ws) = [node_of str cid (last ws)]"
    using assms(1) by (simp add: ws w store_writes_snoc store_chunk_filter store_writes_distinct)
  then show ?thesis
    using assms(1) by (simp add: store_writes_others store_writes_length store_writes_distinct)
qed

theorem store_chunk_upsert_witness:
  "distinct (map n_id [\<lparr>n_id = ''doc_chunk_0'', n_text = ''first'', n_source = ''doc.pdf'',
        n_chunk_index = 0, n_embedding = Some [1, 0], n_metadata = ''m''\<rparr>])
   \<and> [(''second'', Some [0, 1], ''doc.pdf'', 0, md0), (''third'', Some [1, 1], ''doc.pdf'', 0, md0)] \<noteq> []
   \<and> store_writes (\<lambda>m. ''m'')
        [\<lparr>n_id = ''doc_chunk_0'', n_text = ''first'', n_source = ''doc.pdf'',
          n_chunk_index = 0, n_embedding = Some [1, 0], n_metadata = ''m''\<rparr>]
        ''doc_chunk_0''
        [(''second'', Some [0, 1], ''doc.pdf'', 0, md0), (''third'', Some [1, 1], ''doc.pdf'', 0, md0)]
      = [\<lparr>n_id = ''doc_chunk_0'', n_text = ''third'', n_source = ''doc.pdf'',
          n_chunk_index = 0, n_embedding = Some [1, 1], n_metadata = ''m''\<rparr>]"
  using store_chunk_upsert [of
      "[\<lparr>n_id = ''doc_chunk_0'', n_text = ''first'', n_source = ''doc.pdf'',
          n_chunk_index = 0, n_embedding = Some [1, 0], n_metadata = ''m''\<rparr>]"
      "[(''second'', Some [0, 1], ''doc.pdf'', 0, md0), (''third'', Some [1, 1], ''doc.pdf'', 0, md0)]"
      "''doc_chunk_0''" "\<lambda>m. ''m''"]
  by (simp add: store_chunk_def node_of_def)

lemma store_chunk_mem:
  "\<lparr>n_id = cid, n_text = t, n_source = s, n_chunk_index = i, n_embedding = e, n_metadata = str m\<rparr>
     \<in> set (store_chunk str db cid t e s i m)"
  by (auto simp: store_chunk_def Let_def)

lemma store_chunk_keeps:
  "n \<in> set db \<Longrightarrow> n_id n \<noteq> cid \<Longrightarrow> n \<in> set (store_chunk str db cid t e s i m)"
  by (auto simp: store_chunk_def Let_def)

lemma store_chunk_id_set:
  "n_id ` set (store_chunk str db cid t e s i m) = insert cid (n_id ` set db)"
proof -
  have "n_id ` set (store_chunk str db cid t e s i m) = set (map n_id (store_chunk str db cid t e s i m))"
    by simp
  also have "\<dots> = insert cid (n_id ` set db)"
    by (simp only: store_chunk_map_ids) auto
  finally show ?thesis .
qed

lemma store_pairs_fst:
  "fst (store_pairs str ps (db, out)) = fst (store_pairs str ps (db, out'))"
  by (induction str ps "(db, out)" arbitrary: db out out' rule: store_pairs.induct) simp_all

lemma store_pairs_out:
  "snd (store_pairs str ps (db, out)) = out @ map (\<lambda>p. Stored (chunk_id (fst p))) ps"
  by (induction str ps "(db, out)" arbitrary: db out rule: store_pairs.induct) simp_all

lemma store_pairs_append:
  "store_pairs str (ps @ qs) (db, out) = store_pairs str qs (store_pairs str ps (db, out))"
  by (induction str ps "(db, out)" arbitrary: db out rule: store_pairs.induct) simp_all

lemma store_pairs_id_set:
  "n_id ` set (fst (store_pairs str ps (db, out))) = n_id ` set db \<union> (\<lambda>p. chunk_id (fst p)) ` set ps"
  by (induction str ps "(db, out)" arbitrary: db out rule: store_pairs.induct)
     (simp_all add: store_chunk_id_set)

lemma store_pairs_keeps:
  "n \<in> set db \<Longrightarrow> n_id n \<notin> (\<lambda>p. chunk_id (fst p)) ` set ps \<Longrightarrow>
   n \<in> set (fst (store_pairs str ps (db, out)))"
  by (induction str ps "(db, out)" arbitrary: db out rule: store_pairs.induct)
     (simp_all add: store_chunk_keeps)

lemma zip_surplus: "zip (take (length ys) xs) ys = zip xs ys"
proof -
  have "zip (take (length ys) xs) ys = zip (take (length ys) xs) (take (length ys) ys)" by simp
  also have "\<dots> = take (length ys) (zip xs ys)" by (simp only: take_zip)
  also have "\<dots> = zip xs ys" by simp
  finally show ?thesis .
qed

lemma store_pairs_positional:
  assumes "i < length ps"
    and "\<forall>j. i < j \<and> j < length ps \<longrightarrow> chunk_id (fst (ps ! j)) \<noteq> chunk_id (fst (ps ! i))"
  shows "node_of_chunk str (fst (ps ! i)) (snd (ps ! i)) \<in> set (fst (store_pairs str ps (db, out)))"
proof -
  obtain c e where ce: "ps ! i = (c, e)" by (cases "ps ! i")
  have split: "ps = take i ps @ (c, e) # drop (Suc i) ps"
    using assms(1) ce by (metis id_take_nth_drop)
  obtain db1 out1 where pre: "store_pairs str (take i ps) (db, out) = (db1, out1)"
    by (cases "store_pairs str (take i ps) (db, out)")
  let ?db2 = "store_chunk str db1 (chunk_id c) (chunk_text c) e (chunk_source c) (chunk_index c) (chunk_meta c)"
  have in2: "node_of_chunk str c e \<in> set ?db2"
    unfolding node_of_chunk_def by (rule store_chunk_mem)
  have later: "n_id (node_of_chunk str c e) \<notin> (\<lambda>p. chunk_id (fst p)) ` set (drop (Suc i) ps)"
  proof
    assume "n_id (node_of_chunk str c e) \<in> (\<lambda>p. chunk_id (fst p)) ` set (drop (Suc i) ps)"
    then obtain p where p: "p \<in> set (drop (Suc i) ps)" "chunk_id (fst p) = chunk_id c"
      by (auto simp: node_of_chunk_def)
    then obtain k where k: "k < length (drop (Suc i) ps)" "drop (Suc i) ps ! k = p"
      by (auto simp: in_set_conv_nth)
    then have "Suc i + k < length ps" "ps ! (Suc i + k) = p" by auto
    with assms(2) p(2) ce show False by (metis fst_conv less_add_Suc1 add_Suc)
  qed
  have "store_pairs str ps (db, out) =
          store_pairs str (drop (Suc i) ps) (?db2, out1 @ [Stored (chunk_id c)])"
    by (subst split) (simp add: store_pairs_append pre)
  then show ?thesis
    using store_pairs_keeps [OF in2 later] by (simp add: ce)
qed

text \<open>
  C10. \<^verbatim>\<open>store_chunks_batch\<close> pairs chunk and embedding by position (\<^verbatim>\<open>zip\<close>). With fewer
  embeddings than chunks it stores the first \<open>length embeddings\<close> chunks only: the store
  is the one the call on those chunks alone gives, its ids are the old ones and theirs,
  the \<open>i\<close>-th of them carries the \<open>i\<close>-th embedding unless a later one of them has its id;
  the method has no failing branch, and its last line still reports all
  \<open>length chunks\<close> chunks as stored.
\<close>

theorem batch_surplus_skipped:
  assumes "length embeddings < length chunks"
  shows "fst (store_chunks_batch str db chunks embeddings) =
           fst (store_chunks_batch str db (take (length embeddings) chunks) embeddings)
       \<and> snd (store_chunks_batch str db chunks embeddings) =
           Storing (length chunks) # map (\<lambda>c. Stored (chunk_id c)) (take (length embeddings) chunks)
             @ [All_stored (length chunks)]
       \<and> n_id ` set (fst (store_chunks_batch str db chunks embeddings)) =
           n_id ` set db \<union> chunk_id ` set (take (length embeddings) chunks)
       \<and> (\<forall>i < length embeddings.
            (\<forall>j. i < j \<and> j < length embeddings \<longrightarrow> chunk_id (chunks ! j) \<noteq> chunk_id (chunks ! i)) \<longrightarrow>
            node_of_chunk str (chunks ! i) (embeddings ! i)
              \<in> set (fst (store_chunks_batch str db chunks embeddings)))"
proof -
  let ?ps = "zip chunks embeddings"
  have len: "length ?ps = length embeddings" using assms by simp
  have fsts: "map fst ?ps = take (length embeddings) chunks"
    by (simp add: map_fst_zip_take min_def)
  have a: "fst (store_chunks_batch str db chunks embeddings) =
           fst (store_chunks_batch str db (take (length embeddings) chunks) embeddings)"
    by (simp add: store_chunks_batch_def zip_surplus split_beta store_pairs_fst [of _ _ _ "[Storing (length chunks)]" "[Storing (min (length chunks) (length embeddings))]"])
  have b: "snd (store_chunks_batch str db chunks embeddings) =
           Storing (length chunks) # map (\<lambda>c. Stored (chunk_id c)) (take (length embeddings) chunks)
             @ [All_stored (length chunks)]"
    using fsts by (simp add: store_chunks_batch_def split_beta store_pairs_out flip: map_map comp_def[of "\<lambda>c. Stored (chunk_id c)" fst])
  have c: "n_id ` set (fst (store_chunks_batch str db chunks embeddings)) =
           n_id ` set db \<union> chunk_id ` set (take (length embeddings) chunks)"
  proof -
    have "(\<lambda>p. chunk_id (fst p)) ` set ?ps = chunk_id ` set (map fst ?ps)"
      by (simp add: image_image)
    then show ?thesis
      by (simp add: store_chunks_batch_def split_beta store_pairs_id_set fsts)
  qed
  have d: "node_of_chunk str (chunks ! i) (embeddings ! i)
              \<in> set (fst (store_chunks_batch str db chunks embeddings))"
    if i: "i < length embeddings"
      and later: "\<forall>j. i < j \<and> j < length embeddings \<longrightarrow> chunk_id (chunks ! j) \<noteq> chunk_id (chunks ! i)"
    for i
  proof -
    have nth: "?ps ! j = (chunks ! j, embeddings ! j)" if "j < length embeddings" for j
      using that assms by simp
    have "node_of_chunk str (fst (?ps ! i)) (snd (?ps ! i))
            \<in> set (fst (store_pairs str ?ps (db, [Storing (length chunks)])))"
    proof (rule store_pairs_positional)
      show "i < length ?ps" using i len by simp
      show "\<forall>j. i < j \<and> j < length ?ps \<longrightarrow> chunk_id (fst (?ps ! j)) \<noteq> chunk_id (fst (?ps ! i))"
        using later i assms by auto
    qed
    then show ?thesis
      using nth [OF i] by (simp add: store_chunks_batch_def split_beta)
  qed
  from a b c d show ?thesis by blast
qed

theorem batch_surplus_skipped_witness:
  "length [Some [1::real]] < length [c0, c1]
   \<and> store_chunks_batch (\<lambda>m. ''m'') [] [c0, c1] [Some [1]] =
       ([\<lparr>n_id = ''d_chunk_0'', n_text = ''alpha'', n_source = ''d.pdf'', n_chunk_index = 0,
           n_embedding = Some [1], n_metadata = ''m''\<rparr>],
        [Storing 2, Stored ''d_chunk_0'', All_stored 2])"
  using batch_surplus_skipped [of "[Some [1]]" "[c0, c1]" "\<lambda>m. ''m''" "[]"]
  by (simp add: store_chunks_batch_def store_chunk_def c0_def c1_def)

text \<open>
  C3, as the code has it. \<^verbatim>\<open>delete_by_source\<close> returns \<^verbatim>\<open>None\<close>; the number of chunks
  removed is the number it prints, which is the number of nodes with that source and the
  drop of the chunk count. When no node has that source the printed number is 0 and the
  store is unchanged; there is no failing branch.
\<close>

theorem delete_by_source_reports:
  "returned (delete_by_source db source) = PyNone
   \<and> printed_deleted (delete_by_source db source) =
       get_chunk_count db - get_chunk_count (store_after (delete_by_source db source))
   \<and> printed_deleted (delete_by_source db source) = int (length (filter (\<lambda>n. n_source n = source) db))
   \<and> store_after (delete_by_source db source) = filter (\<lambda>n. n_source n \<noteq> source) db
   \<and> (source \<notin> n_source ` set db \<longrightarrow>
        printed_deleted (delete_by_source db source) = 0
        \<and> store_after (delete_by_source db source) = db)"
proof -
  have "length (filter (\<lambda>n. n_source n = source) db) + length (filter (\<lambda>n. n_source n \<noteq> source) db)
          = length db"
    by (rule sum_length_filter_compl)
  moreover have "source \<notin> n_source ` set db \<Longrightarrow> filter (\<lambda>n. n_source n \<noteq> source) db = db"
    by (auto simp: filter_id_conv)
  moreover have "source \<notin> n_source ` set db \<Longrightarrow> filter (\<lambda>n. n_source n = source) db = []"
    by (auto simp: filter_empty_conv)
  ultimately show ?thesis
    by (auto simp: delete_by_source_def get_chunk_count_def Let_def)
qed

theorem delete_by_source_reports_witness:
  "''other.pdf'' \<notin> n_source ` set [node_of_chunk (\<lambda>m. ''m'') c0 (Some [1])]
   \<and> delete_by_source [node_of_chunk (\<lambda>m. ''m'') c0 (Some [1])] ''other.pdf''
       = \<lparr>store_after = [node_of_chunk (\<lambda>m. ''m'') c0 (Some [1])], printed_deleted = 0, returned = PyNone\<rparr>"
  using delete_by_source_reports [of "[node_of_chunk (\<lambda>m. ''m'') c0 (Some [1])]" "''other.pdf''"]
  by (simp add: node_of_chunk_def c0_def delete_by_source_def)

text \<open>C3 as stated fails: one chunk is removed and the value returned is not 1.\<close>

theorem delete_by_source_returns_count_counterexample:
  "get_chunk_count [node_of_chunk (\<lambda>m. ''m'') c0 (Some [1])]
     - get_chunk_count (store_after (delete_by_source [node_of_chunk (\<lambda>m. ''m'') c0 (Some [1])] ''d.pdf'')) = 1
   \<and> returned (delete_by_source [node_of_chunk (\<lambda>m. ''m'') c0 (Some [1])] ''d.pdf'') \<noteq> PyInt 1"
  by (simp add: node_of_chunk_def c0_def delete_by_source_def get_chunk_count_def)

section \<open>The retry loop\<close>

lemma map_upt_shift: "map f [0..<Suc n] = f 0 # map (\<lambda>i. f (Suc i)) [0..<n]"
proof -
  have "[0..<Suc n] = 0 # map Suc [0..<n]"
    by (simp only: map_Suc_upt upt_conv_Cons [of 0 "Suc n"] zero_less_Suc if_True)
  then show ?thesis by (simp only: list.map map_map comp_def)
qed

subsection \<open>The rounded sum\<close>










subsection \<open>The loop\<close>












section \<open>Context assembly\<close>

lemma context_parts_eq:
  "context_parts i chunks parts =
     parts @ map (\<lambda>k. context_part (i + int k) (chunks ! k)) [0..<length chunks]"
proof (induction chunks arbitrary: i parts)
  case Nil
  then show ?case by simp
next
  case (Cons c cs)
  have "map (\<lambda>k. context_part (i + int k) ((c # cs) ! k)) [0..<Suc (length cs)] =
        context_part i c # map (\<lambda>k. context_part (i + 1 + int k) (cs ! k)) [0..<length cs]"
    by (simp only: map_upt_shift) (simp add: algebra_simps)
  with Cons show ?case by simp
qed

text \<open>
  C8. \<^verbatim>\<open>_build_context\<close> depends on its list only. For the empty list it gives the
  fixed sentence; for a non-empty list it gives, in the order of the list and joined by
  a newline, one block per result: a header line with the 1-based rank, the source name
  and the position, then the raw text and a newline.
\<close>

theorem build_context_blocks:
  "build_context [] = ''No relevant context found.''
   \<and> (chunks \<noteq> [] \<longrightarrow>
        build_context chunks =
          str_join nl
            (map (\<lambda>k. ''[Context '' @ str_int (int k + 1) @ '' - Source: '' @ h_source (chunks ! k)
                        @ '', Chunk '' @ str_int (h_chunk_index (chunks ! k)) @ '']'' @ nl
                        @ h_text (chunks ! k) @ nl)
               [0..<length chunks]))"
  by (simp add: build_context_def context_parts_eq context_part_def add.commute)

lemma str_int_examples: "str_int 0 = ''0''" "str_int 1 = ''1''" "str_int 2 = ''2''" "str_int 12 = ''12''"
  by code_simp+

theorem build_context_blocks_witness:
  "[hit0, hit1] \<noteq> []
   \<and> build_context [hit0, hit1] =
       ''[Context 1 - Source: d.pdf, Chunk 0]'' @ nl @ ''Paris is the capital.'' @ nl @ nl
       @ ''[Context 2 - Source: e.pdf, Chunk 12]'' @ nl @ ''Rome too.'' @ nl"
  using build_context_blocks [of "[hit0, hit1]"]
  by (simp add: hit0_def hit1_def str_int_examples numeral_2_eq_2)

section \<open>Chunk extraction\<close>

lemma markdown_chunks_texts:
  "map chunk_text (fst (markdown_chunks mn stem name ps (chunks, cid))) =
     map chunk_text chunks @ filter (kept mn) (map strip ps)"
  by (induction mn stem name ps "(chunks, cid)" arbitrary: chunks cid rule: markdown_chunks.induct)
     (simp_all add: Let_def kept_def)

lemma item_chunks_texts:
  "map chunk_text (fst (item_chunks mn stem name els (chunks, cid))) =
     map chunk_text chunks
       @ filter (kept mn) (map (\<lambda>el. case el_text el of Some t \<Rightarrow> strip t | None \<Rightarrow> []) els)"
  by (induction mn stem name els "(chunks, cid)" arbitrary: chunks cid rule: item_chunks.induct)
     (simp_all add: Let_def kept_def)

lemma shift_int:
  "map (\<lambda>k. cid + int k) [0..<Suc n] = cid # map (\<lambda>k. cid + 1 + int k) [0..<n]"
  by (simp only: map_upt_shift) (simp add: algebra_simps)

lemma markdown_chunks_index:
  "map chunk_index (fst (markdown_chunks mn stem name ps (chunks, cid))) =
     map chunk_index chunks @ map (\<lambda>k. cid + int k) [0..<length (filter (kept mn) (map strip ps))]"
  by (induction mn stem name ps "(chunks, cid)" arbitrary: chunks cid rule: markdown_chunks.induct)
     (auto simp: Let_def kept_def shift_int simp del: upt_Suc)

text \<open>
  C9, as the code has it. The texts of the chunks are, in order, the stripped paragraphs
  (the pieces of the markdown text between blank lines; or the texts of the elements,
  when the markdown export fails) that are non-empty and strictly longer than the
  configured minimum; the others are dropped. The chunk indices count the kept ones from 0.
\<close>

theorem extract_chunks_keeps:
  "(export_to_markdown doc = Inr full_text \<longrightarrow>
      (\<exists>chunks. extract_chunks mn stem name (Inr doc) = Inr chunks
         \<and> map chunk_text chunks =
             filter (\<lambda>t. t \<noteq> [] \<and> mn < int (length t)) (map strip (split_blank [] full_text))
         \<and> map chunk_index chunks = map int [0..<length chunks]))
   \<and> (export_to_markdown doc = Inl e \<longrightarrow>
      (\<exists>chunks. extract_chunks mn stem name (Inr doc) = Inr chunks
         \<and> map chunk_text chunks =
             filter (\<lambda>t. t \<noteq> [] \<and> mn < int (length t))
               (map (\<lambda>el. case el_text el of Some t \<Rightarrow> strip t | None \<Rightarrow> []) (iterate_items doc))))"
proof (intro conjI impI)
  assume md: "export_to_markdown doc = Inr full_text"
  let ?cs = "fst (markdown_chunks mn stem name (split_blank [] full_text) ([], 0))"
  have t: "map chunk_text ?cs = filter (kept mn) (map strip (split_blank [] full_text))"
    by (simp add: markdown_chunks_texts)
  have "length ?cs = length (filter (kept mn) (map strip (split_blank [] full_text)))"
    using arg_cong [OF t, of length] by simp
  then have "map chunk_index ?cs = map int [0..<length ?cs]"
    by (simp add: markdown_chunks_index)
  with t md show "\<exists>chunks. extract_chunks mn stem name (Inr doc) = Inr chunks
         \<and> map chunk_text chunks =
             filter (\<lambda>t. t \<noteq> [] \<and> mn < int (length t)) (map strip (split_blank [] full_text))
         \<and> map chunk_index chunks = map int [0..<length chunks]"
    by (simp add: extract_chunks_def kept_def [abs_def])
next
  assume "export_to_markdown doc = Inl e"
  then show "\<exists>chunks. extract_chunks mn stem name (Inr doc) = Inr chunks
         \<and> map chunk_text chunks =
             filter (\<lambda>t. t \<noteq> [] \<and> mn < int (length t))
               (map (\<lambda>el. case el_text el of Some t \<Rightarrow> strip t | None \<Rightarrow> []) (iterate_items doc))"
    by (simp add: extract_chunks_def item_chunks_texts kept_def [abs_def])
qed

lemma strip_examples:
  "strip ''  A paragraph of thirty-two chars.'' = ''A paragraph of thirty-two chars.''"
  "strip ''12345678901234567890'' = ''12345678901234567890''"
  "strip ''short'' = ''short''"
  by code_simp+

lemma split_blank_example:
  "split_blank [] full_text0
     = [''  A paragraph of thirty-two chars.'', ''12345678901234567890'', ''short'']"
  by code_simp

theorem extract_chunks_keeps_witness:
  "export_to_markdown doc0 = Inr full_text0
   \<and> export_to_markdown (doc0\<lparr>export_to_markdown := Inl ''failed''\<rparr>) = Inl ''failed''
   \<and> (\<exists>chunks. extract_chunks 20 ''d'' ''d.pdf'' (Inr doc0) = Inr chunks
        \<and> map chunk_text chunks = [''A paragraph of thirty-two chars.'']
        \<and> map chunk_index chunks = map int [0..<length chunks])
   \<and> extract_chunks 20 ''d'' ''d.pdf'' (Inr (doc0\<lparr>export_to_markdown := Inl ''failed''\<rparr>)) = Inr []"
  using extract_chunks_keeps [of doc0 full_text0 20 "''d''" "''d.pdf''" "''failed''"]
    extract_chunks_keeps [of "doc0\<lparr>export_to_markdown := Inl ''failed''\<rparr>" "[]" 20 "''d''" "''d.pdf''" "''failed''"]
  by (simp add: doc0_def split_blank_example strip_examples)

text \<open>C9 as stated fails at the boundary: a paragraph of exactly the minimum length,
  20 characters under the default configuration, is dropped.\<close>

theorem extract_chunks_at_minimum_counterexample:
  "strip ''12345678901234567890'' \<noteq> []
   \<and> int (length (strip ''12345678901234567890'')) \<ge> chunk_min_length default_config
   \<and> extract_chunks (chunk_min_length default_config) ''d'' ''d.pdf''
        (Inr \<lparr>export_to_markdown = Inr ''12345678901234567890'', iterate_items = []\<rparr>) = Inr []"
  by (simp add: default_config_def extract_chunks_def strip_examples)

section \<open>The orchestrator\<close>

lemma retry_loop_gen_calls:
  assumes "\<And>w. gen_calls (snd (call w)) = gen_calls w"
  shows "gen_calls (snd (retry_loop call u m a w)) = gen_calls w"
proof (induction "nat (m - int a)" arbitrary: a w)
  case 0
  then show ?case by (subst retry_loop.simps) simp
next
  case (Suc n)
  obtain r w1 where c: "call w = (r, w1)" by (cases "call w")
  with assms [of w] have g: "gen_calls w1 = gen_calls w" by simp
  have ih: "gen_calls (snd (retry_loop call u m (Suc a) w')) = gen_calls w'" for w'
    using Suc.hyps(1) [of "Suc a" w'] Suc.hyps(2) by simp
  show ?case
    by (subst retry_loop.simps) (simp add: c g ih Let_def split: sum.splits)
qed

lemma generate_query_embedding_gen_calls:
  "generate_query_embedding ev m question w = (r, w1) \<Longrightarrow> gen_calls w1 = gen_calls w"
  using retry_loop_gen_calls [of "call_embed ev question ''retrieval_query''" "random_random ev" m 0 w]
  by (simp add: generate_query_embedding_def generate_embedding_def call_embed_def)

lemma search_similar_gen_calls:
  "search_similar ev db q k w = (r, w1) \<Longrightarrow> gen_calls w1 = gen_calls w"
  by (auto simp: search_similar_def Let_def split: if_splits)

text \<open>
  C2. When the query embedding is obtained and the similarity search returns no result,
  \<^verbatim>\<open>query\<close> returns the fixed fallback answer with an empty source list, and the
  generation service has not been called: its call counter is what it was.
\<close>

theorem query_no_context:
  assumes "generate_query_embedding ev (max_retries cfg) question w = (Inr query_embedding, w1)"
    and "search_similar ev db query_embedding
           (case top_k of None \<Rightarrow> top_k_results cfg | Some k \<Rightarrow> k) w1 = (Inr [], w2)"
  shows "query ev cfg db question top_k w =
           (Inr \<lparr>a_question = question, a_answer = Some fallback_answer, a_sources = []\<rparr>, w2)
       \<and> gen_calls w2 = gen_calls w"
  using assms generate_query_embedding_gen_calls [OF assms(1)] search_similar_gen_calls [OF assms(2)]
  by (simp add: query_def)

lemma ev1_order_by: "order_by ev1 n rows = rows"
  by (simp add: ev1_def)

lemma ev1_query_embedding:
  "generate_query_embedding ev1 3 question world0 =
     (Inr (Some [1, 0]), \<lparr>embed_calls = 1, gen_calls = 0, draws = 0, db_queries = 0, slept = []\<rparr>)"
  unfolding generate_query_embedding_def generate_embedding_def
  by (subst retry_loop.simps) (simp add: call_embed_def ev1_def world0_def)

lemma ev1_document_embedding:
  "generate_document_embedding ev1 3 document w =
     (Inr (Some [1, 0]), w\<lparr>embed_calls := embed_calls w + 1\<rparr>)"
  unfolding generate_document_embedding_def generate_embedding_def
  by (subst retry_loop.simps) (simp add: call_embed_def ev1_def)

theorem query_no_context_witness:
  "generate_query_embedding ev1 (max_retries default_config) ''What is it?'' world0 =
     (Inr (Some [1, 0]), \<lparr>embed_calls = 1, gen_calls = 0, draws = 0, db_queries = 0, slept = []\<rparr>)
   \<and> search_similar ev1 [] (Some [1, 0]) (case None of None \<Rightarrow> top_k_results default_config | Some k \<Rightarrow> k)
        \<lparr>embed_calls = 1, gen_calls = 0, draws = 0, db_queries = 0, slept = []\<rparr> =
     (Inr [], \<lparr>embed_calls = 1, gen_calls = 0, draws = 0, db_queries = 1, slept = []\<rparr>)
   \<and> query ev1 default_config [] ''What is it?'' None world0 =
     (Inr \<lparr>a_question = ''What is it?'', a_answer = Some fallback_answer, a_sources = []\<rparr>,
      \<lparr>embed_calls = 1, gen_calls = 0, draws = 0, db_queries = 1, slept = []\<rparr>)"
  using query_no_context [of ev1 default_config "''What is it?''" world0 "Some [1, 0]"
      "\<lparr>embed_calls = 1, gen_calls = 0, draws = 0, db_queries = 0, slept = []\<rparr>" "[]" None
      "\<lparr>embed_calls = 1, gen_calls = 0, draws = 0, db_queries = 1, slept = []\<rparr>"]
  by (simp add: default_config_def ev1_query_embedding search_similar_def match_rows_def ev1_order_by)

text \<open>
  C1, what the code does instead. \<^verbatim>\<open>process_and_store_pdf\<close> never returns a success
  outcome: when extraction gives a non-empty chunk list and every embedding is obtained,
  the chunks are stored and then the unbound name \<^verbatim>\<open>stats\<close> raises \<^verbatim>\<open>NameError\<close>;
  the only outcome it returns is the failure outcome for an empty chunk list.
\<close>

theorem process_and_store_pdf_raises:
  "(\<forall>out. fst (process_and_store_pdf str ev cfg db stem name converted w) = Inr out \<longrightarrow> \<not> success out)
   \<and> (extract_chunks (chunk_min_length cfg) stem name converted = Inr chunks \<and> chunks \<noteq> []
        \<and> embed_chunks ev (max_retries cfg) chunks [] w = (Inr embeddings, w1) \<longrightarrow>
      process_and_store_pdf str ev cfg db stem name converted w =
        (Inl (NameError ''stats''), fst (store_chunks_batch str db chunks embeddings), w1))"
  by (auto simp: process_and_store_pdf_def split: sum.splits prod.splits if_splits)

lemma doc0_chunks: "extract_chunks 20 ''d'' ''d.pdf'' (Inr doc0) = Inr [chunk0]"
  by (simp add: extract_chunks_def doc0_def split_blank_example strip_examples str_int_examples chunk0_def)

lemma ev1_embed_chunk0:
  "embed_chunks ev1 3 [chunk0] [] world0 =
     (Inr [Some [1, 0]], \<lparr>embed_calls = 1, gen_calls = 0, draws = 0, db_queries = 0, slept = []\<rparr>)"
  by (simp add: ev1_document_embedding world0_def)

theorem process_and_store_pdf_raises_witness:
  "extract_chunks (chunk_min_length default_config) ''d'' ''d.pdf'' (Inr doc0) = Inr [chunk0]
   \<and> [chunk0] \<noteq> []
   \<and> embed_chunks ev1 (max_retries default_config) [chunk0] [] world0 =
       (Inr [Some [1, 0]], \<lparr>embed_calls = 1, gen_calls = 0, draws = 0, db_queries = 0, slept = []\<rparr>)
   \<and> process_and_store_pdf (\<lambda>m. ''m'') ev1 default_config [] ''d'' ''d.pdf'' (Inr doc0) world0 =
       (Inl (NameError ''stats''),
        [\<lparr>n_id = ''d_chunk_0'', n_text = ''A paragraph of thirty-two chars.'', n_source = ''d.pdf'',
          n_chunk_index = 0, n_embedding = Some [1, 0], n_metadata = ''m''\<rparr>],
        \<lparr>embed_calls = 1, gen_calls = 0, draws = 0, db_queries = 0, slept = []\<rparr>)"
  using process_and_store_pdf_raises [of "\<lambda>m. ''m''" ev1 default_config "[]" "''d''" "''d.pdf''" "Inr doc0" world0
      "[chunk0]" "[Some [1, 0]]" "\<lparr>embed_calls = 1, gen_calls = 0, draws = 0, db_queries = 0, slept = []\<rparr>"]
  by (simp add: default_config_def doc0_chunks ev1_embed_chunk0 store_chunks_batch_def store_chunk_def
        chunk0_def [symmetric] del: embed_chunks.simps)
     (simp add: chunk0_def)

section \<open>Similarity search\<close>

lemma dot_fold:
  "n \<le> length e \<Longrightarrow> n \<le> length v \<Longrightarrow>
   \<exists>x. fold (\<lambda>i dot. cy_op add dot (cy_op mul (cy_index (Some e) i) (cy_index (Some v) i))) [0..<n] (Some 0)
     = Some x"
  by (induction n) (auto simp: cy_op_def cy_index_def)

lemma similarity_number:
  "length e \<le> length v \<Longrightarrow> \<exists>x. similarity add mul (Some e) (Some v) = Some x"
  by (simp add: similarity_def dot_fold)

lemma to_chunks_numbers:
  "\<forall>r\<in>set rs. r_similarity r \<noteq> None \<Longrightarrow>
   \<exists>hits. to_chunks rs acc = Inr (acc @ hits) \<and> length hits = length rs"
proof (induction rs arbitrary: acc)
  case Nil
  then show ?case by simp
next
  case (Cons r rs)
  then obtain x where x: "r_similarity r = Some x" by auto
  let ?h = "\<lparr>h_id = r_id r, h_text = r_text r, h_source = r_source r,
             h_chunk_index = r_chunk_index r, h_similarity = x\<rparr>"
  from Cons obtain hits where "to_chunks rs (acc @ [?h]) = Inr ((acc @ [?h]) @ hits)" "length hits = length rs"
    by (metis list.set_intros(2))
  then show ?case
    by (intro exI [of _ "?h # hits"]) (simp add: x)
qed

lemma order_by_length:
  "order_by_similarity_desc rows out \<Longrightarrow> length out = length rows"
  by (metis order_by_similarity_desc_def size_mset)

lemma order_by_set:
  "order_by_similarity_desc rows out \<Longrightarrow> set out = set rows"
  by (metis order_by_similarity_desc_def set_mset_mset)

text \<open>
  C5. Let every vector of the store and the query vector have one dimension \<open>N\<close>, the
  invariant of the data model, let the database answer the query in an order that
  \<^verbatim>\<open>ORDER BY similarity DESC\<close> allows, and let \<open>k \<ge> 1\<close>. Then the search returns a list
  of \<open>min k (chunk count)\<close> results, with no error; and on the empty store it returns the
  empty list, with no error, whatever the query vector.
\<close>

theorem search_similar_length:
  assumes ord: "order_by_similarity_desc (match_rows (float_add ev) (float_mul ev) db q)
                  (order_by ev (db_queries w) (match_rows (float_add ev) (float_mul ev) db q))"
    and k: "1 \<le> k"
  shows "((\<exists>v. q = Some v \<and> length v = N) \<and> (\<forall>n\<in>set db. \<exists>e. n_embedding n = Some e \<and> length e = N) \<longrightarrow>
            (\<exists>hits. fst (search_similar ev db q k w) = Inr hits
               \<and> int (length hits) = min k (get_chunk_count db)))
       \<and> (db = [] \<longrightarrow> fst (search_similar ev db q k w) = Inr [])"
proof -
  let ?rows = "match_rows (float_add ev) (float_mul ev) db q"
  let ?out = "order_by ev (db_queries w) ?rows"
  have len: "length ?out = length db"
    using order_by_length [OF ord] by (simp add: match_rows_def)
  have main: "\<exists>hits. fst (search_similar ev db q k w) = Inr hits
               \<and> int (length hits) = min k (get_chunk_count db)"
    if "\<forall>r\<in>set ?rows. r_similarity r \<noteq> None"
  proof -
    from that have "\<forall>r\<in>set (take (nat k) ?out). r_similarity r \<noteq> None"
      using order_by_set [OF ord] by (metis in_set_takeD)
    from to_chunks_numbers [OF this, of "[]"]
    obtain hits where hits: "to_chunks (take (nat k) ?out) [] = Inr hits"
        "length hits = length (take (nat k) ?out)"
      by auto
    have res: "fst (search_similar ev db q k w) = Inr hits"
      using k hits(1) by (simp add: search_similar_def Let_def)
    have "int (length hits) = min k (get_chunk_count db)"
      using k hits(2) len by (simp add: get_chunk_count_def min_def) linarith
    with res show ?thesis by blast
  qed
  have a: "\<exists>hits. fst (search_similar ev db q k w) = Inr hits
               \<and> int (length hits) = min k (get_chunk_count db)"
    if "(\<exists>v. q = Some v \<and> length v = N) \<and> (\<forall>n\<in>set db. \<exists>e. n_embedding n = Some e \<and> length e = N)"
  proof (rule main)
    from that obtain v where v: "q = Some v" "length v = N" by blast
    show "\<forall>r\<in>set ?rows. r_similarity r \<noteq> None"
    proof
      fix r assume "r \<in> set ?rows"
      then obtain n where n: "n \<in> set db"
          "r_similarity r = similarity (float_add ev) (float_mul ev) (n_embedding n) q"
        by (auto simp: match_rows_def)
      with that obtain e where e: "n_embedding n = Some e" "length e = N" by blast
      from similarity_number [of e v "float_add ev" "float_mul ev"] e v
      obtain x where "similarity (float_add ev) (float_mul ev) (Some e) (Some v) = Some x" by auto
      with n e v show "r_similarity r \<noteq> None" by simp
    qed
  qed
  have b: "fst (search_similar ev db q k w) = Inr []" if "db = []"
  proof -
    from that have "\<forall>r\<in>set ?rows. r_similarity r \<noteq> None" by (simp add: match_rows_def)
    from main [OF this] that k show ?thesis by (auto simp: get_chunk_count_def min_def split: if_splits)
  qed
  from a b show ?thesis by blast
qed

lemma ev1_float: "float_add ev1 = (+)" "float_mul ev1 = (*)"
  by (simp_all add: ev1_def)

lemma db_pair_nodes:
  "db_pair = [node_of_chunk (\<lambda>m. ''m'') c0 (Some [1, 0]), node_of_chunk (\<lambda>m. ''m'') c1 (Some [0, 1])]"
  by (simp add: db_pair_def store_chunks_batch_def store_chunk_def node_of_chunk_def c0_def c1_def)

lemma db_pair_rows:
  "match_rows (float_add ev1) (float_mul ev1) db_pair (Some [1, 0]) =
     [\<lparr>r_id = ''d_chunk_0'', r_text = ''alpha'', r_source = ''d.pdf'', r_chunk_index = 0, r_similarity = Some 1\<rparr>,
      \<lparr>r_id = ''d_chunk_1'', r_text = ''beta'', r_source = ''d.pdf'', r_chunk_index = 1, r_similarity = Some 0\<rparr>]"
  by (simp add: db_pair_nodes match_rows_def node_of_chunk_def c0_def c1_def similarity_def
      cy_op_def cy_index_def numeral_2_eq_2 ev1_float)

theorem search_similar_length_witness:
  "order_by_similarity_desc (match_rows (float_add ev1) (float_mul ev1) db_pair (Some [1, 0]))
     (order_by ev1 (db_queries world0) (match_rows (float_add ev1) (float_mul ev1) db_pair (Some [1, 0])))
   \<and> (1::int) \<le> 5
   \<and> length [1, 0 :: real] = 2
   \<and> map n_embedding db_pair = [Some [1, 0], Some [0, 1]]
   \<and> (\<exists>hits. fst (search_similar ev1 db_pair (Some [1, 0]) 5 world0) = Inr hits \<and> int (length hits) = 2)"
proof -
  have ord: "order_by_similarity_desc (match_rows (float_add ev1) (float_mul ev1) db_pair (Some [1, 0]))
     (order_by ev1 (db_queries world0) (match_rows (float_add ev1) (float_mul ev1) db_pair (Some [1, 0])))"
    by (simp add: ev1_order_by db_pair_rows order_by_similarity_desc_def sim_ge_def)
  have inv: "(\<exists>v. Some [1, 0 :: real] = Some v \<and> length v = 2)
      \<and> (\<forall>n\<in>set db_pair. \<exists>e. n_embedding n = Some e \<and> length e = 2)"
    by (simp add: db_pair_nodes node_of_chunk_def)
  have count: "get_chunk_count db_pair = 2"
    by (simp add: db_pair_nodes get_chunk_count_def)
  have emb: "map n_embedding db_pair = [Some [1, 0], Some [0, 1]]"
    by (simp add: db_pair_nodes node_of_chunk_def)
  from search_similar_length [OF ord, of 5 2, THEN conjunct1, THEN mp, OF _ inv]
  have "\<exists>hits. fst (search_similar ev1 db_pair (Some [1, 0]) 5 world0) = Inr hits
      \<and> int (length hits) = min 5 (get_chunk_count db_pair)"
    by simp
  with ord emb count show ?thesis by simp
qed

lemma to_chunks_rows:
  "to_chunks rs acc = Inr hs \<Longrightarrow> \<exists>hits. hs = acc @ hits \<and> map row_of_hit hits = rs"
proof (induction rs arbitrary: acc)
  case Nil
  then show ?case by simp
next
  case (Cons r rs)
  from Cons.prems obtain x where x: "r_similarity r = Some x"
    by (cases "r_similarity r") simp_all
  let ?h = "\<lparr>h_id = r_id r, h_text = r_text r, h_source = r_source r,
             h_chunk_index = r_chunk_index r, h_similarity = x\<rparr>"
  from Cons.prems x have "to_chunks rs (acc @ [?h]) = Inr hs" by simp
  from Cons.IH [OF this] obtain hits where "hs = (acc @ [?h]) @ hits" "map row_of_hit hits = rs"
    by blast
  moreover have "row_of_hit ?h = r"
    by (simp add: row_of_hit_def x [symmetric])
  ultimately show ?case
    by (intro exI [of _ "?h # hits"]) simp
qed

text \<open>
  Whatever order the database answers in, as long as \<^verbatim>\<open>ORDER BY similarity DESC\<close> allows
  it: the results returned are in descending order of score, each is a stored chunk with
  the score the database computed for it, and no row left out by the limit has a higher
  score than a result. The order among equal scores is the database's: the query names
  no second key, and the method keeps the order of the rows.
\<close>

lemma search_similar_descending:
  assumes ord: "order_by_similarity_desc (match_rows (float_add ev) (float_mul ev) db q) (order_by ev (db_queries w) (match_rows (float_add ev) (float_mul ev) db q))"
    and res: "fst (search_similar ev db q k w) = Inr hits"
  shows "sorted_wrt (\<lambda>a b. h_similarity b \<le> h_similarity a) hits
       \<and> (\<forall>h\<in>set hits. \<exists>n\<in>set db.
            h_id h = n_id n \<and> h_text h = n_text n \<and> h_source h = n_source n
            \<and> h_chunk_index h = n_chunk_index n
            \<and> similarity (float_add ev) (float_mul ev) (n_embedding n) q = Some (h_similarity h))
       \<and> (\<forall>h\<in>set hits. \<forall>r\<in>set (drop (nat k) (order_by ev (db_queries w) (match_rows (float_add ev) (float_mul ev) db q))).
            sim_ge (Some (h_similarity h)) (r_similarity r))"
proof -
  let ?out = "order_by ev (db_queries w) (match_rows (float_add ev) (float_mul ev) db q)"
  let ?ge = "\<lambda>a b. sim_ge (r_similarity a) (r_similarity b)"
  from res have k: "0 \<le> k" and tc: "to_chunks (take (nat k) ?out) [] = Inr hits"
    by (auto simp: search_similar_def Let_def split: if_splits)
  from to_chunks_rows [OF tc] have rows: "map row_of_hit hits = take (nat k) ?out"
    by simp
  from ord have sorted: "sorted_wrt ?ge ?out"
    by (simp add: order_by_similarity_desc_def)
  then have "sorted_wrt ?ge (take (nat k) ?out @ drop (nat k) ?out)"
    by simp
  then have parts: "sorted_wrt ?ge (take (nat k) ?out)"
      "\<forall>a\<in>set (take (nat k) ?out). \<forall>r\<in>set (drop (nat k) ?out). ?ge a r"
    by (simp_all only: sorted_wrt_append) simp_all
  have a: "sorted_wrt (\<lambda>a b. h_similarity b \<le> h_similarity a) hits"
    using parts(1) unfolding rows [symmetric] sorted_wrt_map
    by (simp add: row_of_hit_def sim_ge_def)
  have b: "\<exists>n\<in>set db. h_id h = n_id n \<and> h_text h = n_text n \<and> h_source h = n_source n
            \<and> h_chunk_index h = n_chunk_index n
            \<and> similarity (float_add ev) (float_mul ev) (n_embedding n) q = Some (h_similarity h)" if "h \<in> set hits" for h
  proof -
    from that have "row_of_hit h \<in> set (map row_of_hit hits)" by simp
    then have "row_of_hit h \<in> set ?out" unfolding rows by (rule in_set_takeD)
    then have "row_of_hit h \<in> set (match_rows (float_add ev) (float_mul ev) db q)"
      using order_by_set [OF ord] by simp
    then obtain n where "n \<in> set db" "row_of_hit h =
        \<lparr>r_id = n_id n, r_text = n_text n, r_source = n_source n,
         r_chunk_index = n_chunk_index n, r_similarity = similarity (float_add ev) (float_mul ev) (n_embedding n) q\<rparr>"
      by (auto simp: match_rows_def)
    then show ?thesis by (auto simp: row_of_hit_def)
  qed
  have c: "sim_ge (Some (h_similarity h)) (r_similarity r)"
    if "h \<in> set hits" "r \<in> set (drop (nat k) ?out)" for h r
  proof -
    from that(1) have "row_of_hit h \<in> set (map row_of_hit hits)" by simp
    then have "row_of_hit h \<in> set (take (nat k) ?out)" unfolding rows .
    with parts(2) that(2) have "?ge (row_of_hit h) r" by blast
    then show ?thesis by (simp add: row_of_hit_def)
  qed
  from a b c show ?thesis by blast
qed

end
